theory Spec2Isabelle
  imports Complex_Main "HOL-Library.AList"
begin

section \<open>The Criteo preprocessing task (src/preprocessing/task.py)\<close>

text \<open>
  The module is a command line program with three tasks (convert, analyse, transform).
  Each task is a sequence of calls into NVTabular, Dask and fsspec. The embedding keeps
  the module's own control flow (loops, exception handlers, defaults, dispatch) and
  represents what the libraries hand back symbolically: an object of a library is the
  constructor call that made it, a call with an effect outside the process is an event
  of a trace, and what a library answers (the device memory size, the listing of the
  object store, the attributes of the \<open>Shuffle\<close> class) is read from an environment
  that is a parameter of every function.
\<close>

subsection \<open>Python values\<close>

text \<open>
  A Python \<open>int\<close> is an \<open>int\<close>. The type \<open>pyfloat\<close> holds the finite floats: a float is
  modelled by the rational number it stands for, a literal such as \<open>0.10\<close> by its decimal
  value. The two float operations of the module, \<open>float * int\<close> and \<open>float - float\<close>, are
  not computed but taken from the environment (\<open>float_mul\<close>, \<open>float_sub\<close>):
  \<open>float_mul ev x n\<close> is the float that Python computes for \<open>x * n\<close>, whatever the
  rounding. The values \<open>nan\<close> and \<open>inf\<close> are not values of \<open>pyfloat\<close>: a run in which a
  fraction is given as \<open>nan\<close> or \<open>inf\<close>, or in which a product overflows, is outside the
  model. \<open>None\<close> is the \<open>None\<close> of an option type.
\<close>

type_synonym pyfloat = rat

text \<open>
  \<open>int(x)\<close> of a finite float: the value truncated towards zero. (For \<open>nan\<close> and \<open>inf\<close>
  Python's \<open>int\<close> raises; they are not values of \<open>pyfloat\<close>.)
\<close>

definition py_int :: "pyfloat \<Rightarrow> int" where
  "py_int x = (if 0 \<le> x then \<lfloor>x\<rfloor> else \<lceil>x\<rceil>)"

text \<open>\<open>str(n)\<close> of an integer: its decimal digits, with a minus sign when negative.\<close>

fun str_nat :: "nat \<Rightarrow> string" where
  "str_nat n =
     (if n < 10 then [''0123456789'' ! n]
      else str_nat (n div 10) @ [''0123456789'' ! (n mod 10)])"

definition str :: "int \<Rightarrow> string" where
  "str i = (if i < 0 then ''-'' @ str_nat (nat (- i)) else str_nat (nat i))"

text \<open>\<open>range(a, b)\<close> as the list of its elements.\<close>

definition py_range :: "int \<Rightarrow> int \<Rightarrow> int list" where
  "py_range a b = [a..b - 1]"

text \<open>
  \<open>os.path.join(a, b)\<close> for two components (posixpath): an absolute second component
  replaces the first; otherwise the two are joined by one slash unless the first is
  empty or already ends with one.
\<close>

definition os_path_join :: "string \<Rightarrow> string \<Rightarrow> string" where
  "os_path_join a b =
     (if b \<noteq> [] \<and> hd b = CHR ''/'' then b
      else if a = [] \<or> last a = CHR ''/'' then a @ b
      else a @ ''/'' @ b)"

text \<open>
  The exceptions the module meets. \<open>FileNotFoundError\<close> is a subclass of \<open>OSError\<close>;
  \<open>OSError\<close> here stands for every other exception of that class, and \<open>OtherError\<close>
  for an exception outside it.
\<close>

datatype exn =
    FileNotFoundError string
  | OSError string
  | TypeError string
  | AttributeError string
  | OtherError string

subsection \<open>Objects of the libraries\<close>

text \<open>
  \<open>LocalCUDACluster(n_workers, device_memory_limit, rmm_pool_size, memory_limit)\<close> and the
  Dask \<open>Client\<close> made from it.
\<close>

datatype cluster =
  LocalCUDACluster (cl_n_workers: "int option") (cl_device_memory_limit: int)
    (cl_rmm_pool_size: int) (cl_memory_limit: int)

datatype client = Client (client_cluster: cluster)

text \<open>A column dtype of the CSV schema: \<open>np.int32\<close>, or a string such as \<open>"hex"\<close>.\<close>

datatype dtype = NpInt32 | DtypeStr string

text \<open>
  The operators of NVTabular the module constructs, with the keyword arguments it
  gives them, and column groups: a list of column names, \<open>group >> op\<close> and
  \<open>group + group\<close>.
\<close>

datatype operator =
    Categorify (max_size: int)
  | FillMissing
  | Clip (min_value: int)
  | Normalize

datatype colgroup =
    ColumnNames "string list"
  | Rshift colgroup operator
  | Plus colgroup colgroup

text \<open>
  Workflows and datasets.
  \<^item> \<open>Workflow g c\<close> is \<open>nvt.Workflow(g, c)\<close>; \<open>LoadedWorkflow p c\<close> is what
    \<open>nvt.Workflow.load(p, c)\<close> returns; \<open>Fitted w d\<close> is the workflow object \<open>w\<close> after
    \<open>w.fit(d)\<close>, which updates \<open>w\<close> in place.
  \<^item> \<open>CsvDataset paths names sep dtypes frac c\<close> is
    \<open>nvt.Dataset(path_or_source=paths, engine='csv', names=names, sep=sep, dtypes=dtypes,
    part_mem_fraction=frac, client=c, assume_missing=True)\<close>;
    \<open>ParquetDataset files frac c\<close> is
    \<open>nvt.Dataset(files, engine='parquet', part_mem_fraction=frac, client=c)\<close>;
    \<open>Transformed w d\<close> is the new dataset object that \<open>w.transform(d)\<close> returns.
    \<open>Workflow.transform\<close> builds its result lazily and leaves \<open>d\<close> as it was.
\<close>

datatype workflow =
    Workflow colgroup client
  | LoadedWorkflow "string option" client
  | Fitted workflow dataset
and dataset =
    CsvDataset "string list" "string list" "string option" "(string \<times> dtype) list"
      pyfloat client
  | ParquetDataset "string list" pyfloat client
  | Transformed workflow dataset

text \<open>
  What \<open>getattr(Shuffle, name)\<close> can return: a member of the enum, or another attribute
  of the class (every Python class has \<open>__name__\<close>, \<open>__module__\<close>, ...; an \<open>Enum\<close> class
  also has \<open>__members__\<close>). Both are identified by their names.
\<close>

datatype shuffle_value = ShuffleMember string | ShuffleClassAttr string

subsection \<open>Effects\<close>

text \<open>
  An event is a call whose effect is outside the process: a log line, a line printed, a
  cluster started, a query of the object store, a dataset written, a workflow fitted,
  applied, saved or loaded.
\<close>

datatype event =
    Info string "pyfloat list"
  | Printed string
  | ClusterCreated cluster
  | FsIsFile string
  | FsGlob string
  | ToParquet dataset "string option" "shuffle_value option" "int option"
  | WorkflowFit workflow dataset
  | WorkflowTransform workflow dataset
  | WorkflowSave workflow "string option"
  | WorkflowLoad "string option" client

text \<open>
  The environment: what the libraries and the platform answer.
  \<^item> \<open>device_mem_size\<close>: the result of \<open>nvtabular.utils.device_mem_size()\<close>;
  \<^item> \<open>float_mul\<close>, \<open>float_sub\<close>: \<open>float * int\<close> and \<open>float - float\<close> as the platform
    computes them;
  \<^item> \<open>gcs_isfile\<close>, \<open>gcs_glob\<close>: \<open>isfile\<close> and \<open>glob\<close> of \<open>fsspec.filesystem('gs')\<close>,
    each returning a value or raising;
  \<^item> \<open>shuffle_members\<close>: the names of the members of \<open>nvtabular.io.shuffle.Shuffle\<close>;
    \<open>shuffle_class_attrs\<close>: the names of the other attributes of that class;
  \<^item> \<open>time_start\<close>, \<open>time_end\<close>: the results of the two calls of \<open>time.time()\<close>.
  The object store is not changed by the program's queries, so one environment serves a
  whole run.
\<close>

record env =
  device_mem_size :: int
  float_mul :: "pyfloat \<Rightarrow> int \<Rightarrow> pyfloat"
  float_sub :: "pyfloat \<Rightarrow> pyfloat \<Rightarrow> pyfloat"
  gcs_isfile :: "string \<Rightarrow> exn + bool"
  gcs_glob :: "string \<Rightarrow> exn + string list"
  shuffle_members :: "string list"
  shuffle_class_attrs :: "string list"
  time_start :: pyfloat
  time_end :: pyfloat

text \<open>
  A computation returns a value or raises, and leaves the events it caused, in order.
\<close>

type_synonym 'a io = "(exn + 'a) \<times> event list"

definition ret :: "'a \<Rightarrow> 'a io" where
  "ret x = (Inr x, [])"

definition raise :: "exn \<Rightarrow> 'a io" where
  "raise e = (Inl e, [])"

definition emit :: "event \<Rightarrow> unit io" where
  "emit ev = (Inr (), [ev])"

text \<open>Sequencing: an exception of the first part skips the second.\<close>

definition bind_io :: "'a io \<Rightarrow> ('a \<Rightarrow> 'b io) \<Rightarrow> 'b io" where
  "bind_io m f =
     (case m of
        (Inl e, tr) \<Rightarrow> (Inl e, tr)
      | (Inr x, tr) \<Rightarrow> (case f x of (r, tr') \<Rightarrow> (r, tr @ tr')))"

subsection \<open>get_criteo_col_dtypes\<close>

text \<open>
  A \<open>dict\<close> keeps its keys in insertion order: an association list, where
  \<open>d[k] = v\<close> replaces the value of a key that is present and appends a new key.
  \<open>dict_setitem\<close> is that assignment; a \<open>for\<close> loop of assignments is a fold.
\<close>

definition dict_setitem :: "(string \<times> 'v) list \<Rightarrow> string \<Rightarrow> 'v \<Rightarrow> (string \<times> 'v) list" where
  "dict_setitem d k v = AList.update k v d"

definition get_criteo_col_dtypes :: "(string \<times> dtype) list" where
  "get_criteo_col_dtypes =
     (let col_dtypes = [];
          col_dtypes = dict_setitem col_dtypes ''label'' NpInt32;
          col_dtypes = foldl (\<lambda>d x. dict_setitem d x NpInt32) col_dtypes
                         (map (\<lambda>i. ''I'' @ str i) (py_range 1 14));
          col_dtypes = foldl (\<lambda>d x. dict_setitem d x (DtypeStr ''hex'')) col_dtypes
                         (map (\<lambda>i. ''C'' @ str i) (py_range 1 27))
      in col_dtypes)"

subsection \<open>create_cluster\<close>

definition create_cluster ::
  "env \<Rightarrow> int option \<Rightarrow> pyfloat \<Rightarrow> pyfloat \<Rightarrow> int \<Rightarrow> client io" where
  "create_cluster ev n_workers device_limit_frac device_pool_frac memory_limit =
     (let device_size = device_mem_size ev;
          device_limit = py_int (float_mul ev device_limit_frac device_size);
          device_pool_size = py_int (float_mul ev device_pool_frac device_size);
          rmm_pool_size = (device_pool_size div 256) * 256;
          cluster = LocalCUDACluster n_workers device_limit rmm_pool_size memory_limit
      in bind_io (emit (ClusterCreated cluster)) (\<lambda>_. ret (Client cluster)))"

subsection \<open>Calls into the libraries\<close>

text \<open>A glob of the object store, leaving its event.\<close>

definition fs_glob :: "env \<Rightarrow> string \<Rightarrow> string list io" where
  "fs_glob ev path = (gcs_glob ev path, [FsGlob path])"

text \<open>
  \<open>workflow.fit(dataset)\<close> updates the workflow object: the value returned here is the
  state of that object after the call. \<open>workflow.transform(dataset)\<close> returns a new
  dataset. \<open>dataset.to_parquet(...)\<close> on \<open>None\<close> raises \<open>AttributeError\<close>.
\<close>

definition wf_fit :: "workflow \<Rightarrow> dataset \<Rightarrow> workflow io" where
  "wf_fit workflow dataset =
     bind_io (emit (WorkflowFit workflow dataset)) (\<lambda>_. ret (Fitted workflow dataset))"

definition wf_transform :: "workflow \<Rightarrow> dataset \<Rightarrow> dataset io" where
  "wf_transform workflow dataset =
     bind_io (emit (WorkflowTransform workflow dataset))
       (\<lambda>_. ret (Transformed workflow dataset))"

definition to_parquet ::
  "dataset option \<Rightarrow> string option \<Rightarrow> shuffle_value option \<Rightarrow> int option \<Rightarrow> unit io" where
  "to_parquet dataset output_path shuffle output_files =
     (case dataset of
        None \<Rightarrow> raise (AttributeError ''to_parquet'')
      | Some d \<Rightarrow> emit (ToParquet d output_path shuffle output_files))"

text \<open>
  \<open>getattr(Shuffle, name)\<close>: a name that is not a string raises \<open>TypeError\<close>; the name
  of a member gives the member, the name of another attribute of the class gives that
  attribute, and any other name raises \<open>AttributeError\<close>.
\<close>

definition getattr_Shuffle :: "env \<Rightarrow> string option \<Rightarrow> exn + shuffle_value" where
  "getattr_Shuffle ev name =
     (case name of
        None \<Rightarrow> Inl (TypeError ''attribute name must be string'')
      | Some s \<Rightarrow>
          if s \<in> set (shuffle_members ev) then Inr (ShuffleMember s)
          else if s \<in> set (shuffle_class_attrs ev) then Inr (ShuffleClassAttr s)
          else Inl (AttributeError s))"

subsection \<open>create_csv_dataset\<close>

text \<open>
  The list \<open>valid_paths\<close> is appended to inside the \<open>try\<close> block, so what was appended
  before an exception stays: the body of the \<open>try\<close> returns the list next to its outcome.
  \<open>glob_loop\<close> is the inner loop \<open>for i in fs_spec.glob(path)\<close>.
\<close>

fun glob_loop ::
  "env \<Rightarrow> string list \<Rightarrow> string list \<Rightarrow> (exn + unit) \<times> string list \<times> event list" where
  "glob_loop ev [] valid_paths = (Inr (), valid_paths, [])"
| "glob_loop ev (i # rest) valid_paths =
     (case gcs_isfile ev i of
        Inl e \<Rightarrow> (Inl e, valid_paths, [FsIsFile i])
      | Inr b \<Rightarrow>
          (case glob_loop ev rest (if b then valid_paths @ [''gs://'' @ i] else valid_paths) of
             (r, valid_paths', tr) \<Rightarrow> (r, valid_paths', FsIsFile i # tr)))"

definition try_body ::
  "env \<Rightarrow> string \<Rightarrow> string \<Rightarrow> string list \<Rightarrow> (exn + unit) \<times> string list \<times> event list" where
  "try_body ev rec_symbol path valid_paths =
     (case gcs_isfile ev path of
        Inl e \<Rightarrow> (Inl e, valid_paths, [FsIsFile path])
      | Inr True \<Rightarrow> (Inr (), valid_paths @ [path], [FsIsFile path])
      | Inr False \<Rightarrow>
          (let path' = os_path_join path rec_symbol in
           case gcs_glob ev path' of
             Inl e \<Rightarrow> (Inl e, valid_paths, [FsIsFile path, FsGlob path'])
           | Inr files \<Rightarrow>
               (case glob_loop ev files valid_paths of
                  (r, valid_paths', tr) \<Rightarrow>
                    (r, valid_paths', [FsIsFile path, FsGlob path'] @ tr))))"

text \<open>
  The loop \<open>for path in data_paths\<close>. The \<open>return nvt.Dataset(...)\<close> statement stands
  inside the body of the loop, after the \<open>try\<close> statement: the first iteration returns,
  and the rest of the list is never visited. A loop over no path falls through to the end
  of the function, which returns \<open>None\<close>. The two handlers print and go on; an
  exception outside \<open>OSError\<close> leaves the function.
\<close>

fun csv_paths_loop ::
  "env \<Rightarrow> string \<Rightarrow> string list \<Rightarrow> string list \<Rightarrow> (string list \<Rightarrow> dataset) \<Rightarrow>
   dataset option io" where
  "csv_paths_loop ev rec_symbol [] valid_paths mk = (Inr None, [])"
| "csv_paths_loop ev rec_symbol (path # rest) valid_paths mk =
     (case try_body ev rec_symbol path valid_paths of
        (Inr _, valid_paths', tr) \<Rightarrow> (Inr (Some (mk valid_paths')), tr)
      | (Inl (FileNotFoundError msg), valid_paths', tr) \<Rightarrow>
          (Inr (Some (mk valid_paths')),
           tr @ [Printed msg, Printed ''Incorrect path: {path}.''])
      | (Inl (OSError msg), valid_paths', tr) \<Rightarrow>
          (Inr (Some (mk valid_paths')),
           tr @ [Printed msg, Printed ''Verify access to the bucket.''])
      | (Inl e, valid_paths', tr) \<Rightarrow> (Inl e, tr))"

text \<open>
  \<open>data_paths\<close> is \<open>None\<close> when \<open>--csv_data_path\<close> was not given; iterating over \<open>None\<close>
  raises \<open>TypeError\<close>.
\<close>

definition create_csv_dataset ::
  "env \<Rightarrow> string list option \<Rightarrow> string option \<Rightarrow> bool \<Rightarrow> (string \<times> dtype) list \<Rightarrow>
   pyfloat \<Rightarrow> client \<Rightarrow> dataset option io" where
  "create_csv_dataset ev data_paths sep recursive col_dtypes frac_size client =
     (let rec_symbol = (if recursive then ''**'' else ''*'');
          valid_paths = []
      in case data_paths of
           None \<Rightarrow> raise (TypeError ''object is not iterable'')
         | Some paths \<Rightarrow>
             csv_paths_loop ev rec_symbol paths valid_paths
               (\<lambda>valid_paths.
                  CsvDataset valid_paths (map fst col_dtypes) sep col_dtypes frac_size client))"

subsection \<open>convert_csv_to_parquet, save_dataset\<close>

text \<open>
  The argument \<open>shuffle\<close> is a string or \<open>None\<close>. The bare \<open>except:\<close> catches whatever
  \<open>getattr\<close> raises.
\<close>

definition convert_csv_to_parquet ::
  "env \<Rightarrow> string option \<Rightarrow> dataset option \<Rightarrow> int option \<Rightarrow> string option \<Rightarrow> unit io" where
  "convert_csv_to_parquet ev output_path dataset output_files shuffle =
     bind_io
       (if shuffle = Some ''None'' then ret None
        else (case getattr_Shuffle ev shuffle of
                Inr v \<Rightarrow> ret (Some v)
              | Inl _ \<Rightarrow>
                  bind_io (emit (Printed ''Shuffle method not available. Using default.''))
                    (\<lambda>_. ret None)))
       (\<lambda>shuffle. to_parquet dataset output_path shuffle output_files)"

definition save_dataset ::
  "env \<Rightarrow> dataset option \<Rightarrow> string option \<Rightarrow> string option \<Rightarrow> unit io" where
  "save_dataset ev dataset output_path shuffle =
     bind_io
       (if shuffle = Some ''None'' then ret None
        else (case getattr_Shuffle ev shuffle of
                Inr v \<Rightarrow> ret (Some v)
              | Inl _ \<Rightarrow>
                  bind_io (emit (Printed ''Shuffle method not available. Using default.''))
                    (\<lambda>_. ret None)))
       (\<lambda>shuffle. to_parquet dataset output_path shuffle None)"

subsection \<open>create_criteo_nvt_workflow\<close>

definition create_criteo_nvt_workflow :: "client \<Rightarrow> workflow" where
  "create_criteo_nvt_workflow client =
     (let cont_names = map (\<lambda>x. ''I'' @ str x) (py_range 1 14);
          cat_names = map (\<lambda>x. ''C'' @ str x) (py_range 1 27);
          num_buckets = 10000000;
          categorify_op = Categorify num_buckets;
          cat_features = Rshift (ColumnNames cat_names) categorify_op;
          cont_features =
            Rshift (Rshift (Rshift (ColumnNames cont_names) FillMissing) (Clip 0)) Normalize;
          features = Plus (Plus cat_features cont_features) (ColumnNames [''label''])
      in Workflow features client)"

subsection \<open>create_parquet_dataset\<close>

text \<open>
  \<open>data_path\<close> is \<open>None\<close> when \<open>--parquet_data_path\<close> was not given; \<open>os.path.join\<close>
  then raises \<open>TypeError\<close>.
\<close>

definition create_parquet_dataset ::
  "env \<Rightarrow> client \<Rightarrow> string option \<Rightarrow> pyfloat \<Rightarrow> dataset io" where
  "create_parquet_dataset ev client data_path frac_size =
     (case data_path of
        None \<Rightarrow> raise (TypeError ''expected str, bytes or os.PathLike object, not NoneType'')
      | Some p \<Rightarrow>
          bind_io (fs_glob ev (os_path_join p ''*.parquet''))
            (\<lambda>file_list.
               if file_list = [] then raise (FileNotFoundError ''Parquet file(s) not found'')
               else (let file_list = map (os_path_join ''gs://'') file_list
                     in ret (ParquetDataset file_list frac_size client))))"

subsection \<open>analyze_dataset, transform_dataset, load_workflow, save_workflow\<close>

definition analyze_dataset :: "workflow \<Rightarrow> dataset \<Rightarrow> workflow io" where
  "analyze_dataset workflow dataset =
     bind_io (wf_fit workflow dataset) (\<lambda>workflow. ret workflow)"

text \<open>
  The value of \<open>workflow.transform(dataset)\<close> is not bound to a name; the function
  returns its argument \<open>dataset\<close>.
\<close>

definition transform_dataset :: "dataset \<Rightarrow> workflow \<Rightarrow> dataset io" where
  "transform_dataset dataset workflow =
     bind_io (wf_transform workflow dataset) (\<lambda>_. ret dataset)"

definition load_workflow :: "string option \<Rightarrow> client \<Rightarrow> workflow io" where
  "load_workflow workflow_path client =
     bind_io (emit (WorkflowLoad workflow_path client))
       (\<lambda>_. ret (LoadedWorkflow workflow_path client))"

definition save_workflow :: "workflow \<Rightarrow> string option \<Rightarrow> unit io" where
  "save_workflow workflow output_path = emit (WorkflowSave workflow output_path)"

subsection \<open>parse_args\<close>

text \<open>
  The command line as \<open>argparse\<close> reads it: for each flag the parser declares, the value
  given with it (converted by the declared \<open>type\<close>; a list for \<open>nargs='+'\<close>), or nothing
  when the flag is omitted. A command line that \<open>argparse\<close> rejects ends the process
  inside \<open>parse_args\<close>, before any other code of the module runs, and is not modelled.
\<close>

record cmdline =
  given_task :: "string option"
  given_csv_data_path :: "string list option"
  given_parquet_data_path :: "string option"
  given_output_path :: "string option"
  given_output_files :: "int option"
  given_workflow_path :: "string option"
  given_n_workers :: "int option"
  given_sep :: "string option"
  given_frac_size :: "pyfloat option"
  given_memory_limit :: "int option"
  given_device_limit_frac :: "pyfloat option"
  given_device_pool_frac :: "pyfloat option"

text \<open>The namespace \<open>parse_args\<close> returns: one attribute per declared argument.\<close>

record args =
  args_task :: "string option"
  args_csv_data_path :: "string list option"
  args_parquet_data_path :: "string option"
  args_output_path :: "string option"
  args_output_files :: "int option"
  args_workflow_path :: "string option"
  args_n_workers :: "int option"
  args_sep :: "string option"
  args_frac_size :: pyfloat
  args_memory_limit :: int
  args_device_limit_frac :: pyfloat
  args_device_pool_frac :: pyfloat

text \<open>
  \<open>add_argument(flag, default=d)\<close>: the attribute is the given value, or \<open>d\<close> when the
  flag is omitted. Without \<open>default\<close> the attribute of an omitted flag is \<open>None\<close>.
\<close>

definition add_argument :: "'a option \<Rightarrow> 'a \<Rightarrow> 'a" where
  "add_argument given dflt = (case given of None \<Rightarrow> dflt | Some v \<Rightarrow> v)"

definition parse_args :: "cmdline \<Rightarrow> args" where
  "parse_args cl =
     \<lparr> args_task = given_task cl,
       args_csv_data_path = given_csv_data_path cl,
       args_parquet_data_path = given_parquet_data_path cl,
       args_output_path = given_output_path cl,
       args_output_files = given_output_files cl,
       args_workflow_path = given_workflow_path cl,
       args_n_workers = given_n_workers cl,
       args_sep = given_sep cl,
       args_frac_size = add_argument (given_frac_size cl) 0.10,
       args_memory_limit = add_argument (given_memory_limit cl) 100000000000,
       args_device_limit_frac = add_argument (given_device_limit_frac cl) 0.60,
       args_device_pool_frac = add_argument (given_device_pool_frac cl) 0.90 \<rparr>"

subsection \<open>The three tasks and the entry point\<close>

definition main_convert :: "env \<Rightarrow> args \<Rightarrow> unit io" where
  "main_convert ev a =
     bind_io (emit (Info ''Creating cluster'' [])) (\<lambda>_.
     bind_io (create_cluster ev (args_n_workers a) (args_device_limit_frac a)
                (args_device_pool_frac a) (args_memory_limit a)) (\<lambda>client.
     bind_io (emit (Info ''Creating CSV dataset'' [])) (\<lambda>_.
     bind_io (create_csv_dataset ev (args_csv_data_path a) (args_sep a) False
                get_criteo_col_dtypes (args_frac_size a) client) (\<lambda>dataset.
     bind_io (emit (Info ''Converting CSV to Parquet'' [])) (\<lambda>_.
     convert_csv_to_parquet ev (args_output_path a) dataset (args_output_files a) None)))))"

definition main_analyse :: "env \<Rightarrow> args \<Rightarrow> unit io" where
  "main_analyse ev a =
     bind_io (emit (Info ''Creating cluster'' [])) (\<lambda>_.
     bind_io (create_cluster ev (args_n_workers a) (args_device_limit_frac a)
                (args_device_pool_frac a) (args_memory_limit a)) (\<lambda>client.
     bind_io (emit (Info ''Creating Parquet dataset'' [])) (\<lambda>_.
     bind_io (create_parquet_dataset ev client (args_parquet_data_path a)
                (args_frac_size a)) (\<lambda>dataset.
     bind_io (emit (Info ''Creating Workflow'' [])) (\<lambda>_.
     bind_io (ret (create_criteo_nvt_workflow client)) (\<lambda>criteo_workflow.
     bind_io (emit (Info ''Analyzing dataset'' [])) (\<lambda>_.
     bind_io (analyze_dataset criteo_workflow dataset) (\<lambda>criteo_workflow.
     bind_io (emit (Info ''Saving Workflow'' [])) (\<lambda>_.
     save_workflow criteo_workflow (args_output_path a))))))))))"

definition main_transform :: "env \<Rightarrow> args \<Rightarrow> unit io" where
  "main_transform ev a =
     bind_io (emit (Info ''Creating cluster'' [])) (\<lambda>_.
     bind_io (create_cluster ev (args_n_workers a) (args_device_limit_frac a)
                (args_device_pool_frac a) (args_memory_limit a)) (\<lambda>client.
     bind_io (emit (Info ''Creating Parquet dataset'' [])) (\<lambda>_.
     bind_io (create_parquet_dataset ev client (args_parquet_data_path a)
                (args_frac_size a)) (\<lambda>dataset.
     bind_io (emit (Info ''Loading Workflow'' [])) (\<lambda>_.
     bind_io (load_workflow (args_workflow_path a) client) (\<lambda>criteo_workflow.
     bind_io (emit (Info ''Transforming Dataset'' [])) (\<lambda>_.
     bind_io (transform_dataset dataset criteo_workflow) (\<lambda>transformed_dataset.
     bind_io (emit (Info ''Saving transformed dataset'' [])) (\<lambda>_.
     save_dataset ev (Some transformed_dataset) (args_output_path a) None)))))))))"

text \<open>
  The block under \<open>if __name__ == '__main__'\<close>. An exception of a task is not caught: it
  ends the process before the last log line.
\<close>

definition main :: "env \<Rightarrow> cmdline \<Rightarrow> unit io" where
  "main ev cl =
     (let parsed_args = parse_args cl;
          start_time = time_start ev
      in bind_io (emit (Info ''Timing task'' [])) (\<lambda>_.
         bind_io (if args_task parsed_args = Some ''convert'' then main_convert ev parsed_args
                  else if args_task parsed_args = Some ''analyse'' then main_analyse ev parsed_args
                  else if args_task parsed_args = Some ''transform'' then main_transform ev parsed_args
                  else ret ()) (\<lambda>_.
         (let end_time = time_end ev;
              elapsed_time = float_sub ev end_time start_time
          in emit (Info ''Task completed. Elapsed time: %s'' [elapsed_time])))))"

subsection \<open>A concrete environment\<close>

text \<open>
  A small object store, used to run the functions on concrete inputs: a bucket with two
  CSV files in one directory and one Parquet file in another, an empty directory, and a
  path whose bucket does not exist: \<open>isfile\<close> answers \<open>False\<close> for it and \<open>glob\<close> raises
  \<open>FileNotFoundError\<close>. \<open>glob\<close> of \<open>gcsfs\<close> lists names without the \<open>gs://\<close> prefix.
  The \<open>Shuffle\<close> enum of NVTabular has the members \<open>PER_PARTITION\<close>, \<open>PER_WORKER\<close> and
  \<open>FULL\<close>; of the other attributes of the class, three that every \<open>Enum\<close> class has
  are listed. The device has 16 GiB of memory. Floats are multiplied and subtracted
  exactly.
\<close>

definition bucket_isfile :: "string \<Rightarrow> exn + bool" where
  "bucket_isfile path =
     (if path \<in> set [''gs://bucket/csv/day_0.csv'', ''gs://bucket/csv/day_1.csv'',
                      ''bucket/csv/day_0.csv'', ''bucket/csv/day_1.csv'',
                      ''gs://bucket/parquet/part_0.parquet'', ''bucket/parquet/part_0.parquet'']
      then Inr True
      else Inr False)"

definition bucket_glob :: "string \<Rightarrow> exn + string list" where
  "bucket_glob pat =
     (if pat = ''gs://bucket/csv/*'' then Inr [''bucket/csv/day_0.csv'', ''bucket/csv/day_1.csv'']
      else if pat = ''gs://bucket/parquet/*.parquet'' then Inr [''bucket/parquet/part_0.parquet'']
      else if pat = ''gs://missing/csv/*'' then Inl (FileNotFoundError ''missing'')
      else Inr [])"

definition bucket_env :: env where
  "bucket_env =
     \<lparr> device_mem_size = 17179869184,
       float_mul = (\<lambda>x n. x * of_int n),
       float_sub = (\<lambda>x y. x - y),
       gcs_isfile = bucket_isfile,
       gcs_glob = bucket_glob,
       shuffle_members = [''PER_PARTITION'', ''PER_WORKER'', ''FULL''],
       shuffle_class_attrs = [''__name__'', ''__module__'', ''__members__''],
       time_start = 5,
       time_end = 7 \<rparr>"

text \<open>A command line that gives no flag at all.\<close>

definition no_flags :: cmdline where
  "no_flags =
     \<lparr> given_task = None, given_csv_data_path = None, given_parquet_data_path = None,
       given_output_path = None, given_output_files = None, given_workflow_path = None,
       given_n_workers = None, given_sep = None, given_frac_size = None,
       given_memory_limit = None, given_device_limit_frac = None,
       given_device_pool_frac = None \<rparr>"

section \<open>Properties\<close>

subsection \<open>Evaluating computations\<close>

lemma bind_io_Inr: "bind_io (Inr x, tr) f = (fst (f x), tr @ snd (f x))"
  by (simp add: bind_io_def split: prod.splits)

lemma bind_io_Inl: "bind_io (Inl e, tr) f = (Inl e, tr)"
  by (simp add: bind_io_def)

lemma fst_bind_io_Inl: "fst m = Inl e \<Longrightarrow> fst (bind_io m f) = Inl e"
  by (auto simp: bind_io_def split: prod.splits sum.splits)

lemmas io_simps = bind_io_Inr bind_io_Inl ret_def raise_def emit_def

lemma parse_args_passes:
  "args_parquet_data_path (parse_args cl) = given_parquet_data_path cl"
  "args_task (parse_args cl) = given_task cl"
  by (simp_all add: parse_args_def)

subsection \<open>The column dtypes\<close>

text \<open>
  C4. \<open>get_criteo_col_dtypes\<close> returns a mapping with exactly 40 entries, all keys
  different: \<open>label\<close> with \<open>np.int32\<close>, then \<open>I1\<close> .. \<open>I13\<close> each with \<open>np.int32\<close>, then
  \<open>C1\<close> .. \<open>C26\<close> each with the string \<open>hex\<close>.
\<close>

theorem get_criteo_col_dtypes_schema:
  "get_criteo_col_dtypes =
     (''label'', NpInt32) #
     map (\<lambda>k. (k, NpInt32))
       [''I1'', ''I2'', ''I3'', ''I4'', ''I5'', ''I6'', ''I7'', ''I8'', ''I9'', ''I10'',
        ''I11'', ''I12'', ''I13''] @
     map (\<lambda>k. (k, DtypeStr ''hex''))
       [''C1'', ''C2'', ''C3'', ''C4'', ''C5'', ''C6'', ''C7'', ''C8'', ''C9'', ''C10'',
        ''C11'', ''C12'', ''C13'', ''C14'', ''C15'', ''C16'', ''C17'', ''C18'', ''C19'',
        ''C20'', ''C21'', ''C22'', ''C23'', ''C24'', ''C25'', ''C26'']
   \<and> length get_criteo_col_dtypes = 40
   \<and> distinct (map fst get_criteo_col_dtypes)"
  by code_simp

subsection \<open>The cluster\<close>

lemma create_cluster_eq:
  "create_cluster ev n f p m =
     (Inr (Client (LocalCUDACluster n (py_int (float_mul ev f (device_mem_size ev)))
        ((py_int (float_mul ev p (device_mem_size ev)) div 256) * 256) m)),
      [ClusterCreated (LocalCUDACluster n (py_int (float_mul ev f (device_mem_size ev)))
        ((py_int (float_mul ev p (device_mem_size ev)) div 256) * 256) m)])"
  by (simp add: create_cluster_def Let_def io_simps)

lemma create_cluster_client:
  "fst (create_cluster ev n f p m) = Inr client \<Longrightarrow>
   create_cluster ev n f p m = (Inr client, [ClusterCreated (client_cluster client)])"
  by (auto simp: create_cluster_eq)

lemma py_int_nonneg: "0 \<le> x \<Longrightarrow> py_int x = \<lfloor>x\<rfloor>"
  by (simp add: py_int_def)

lemma largest_multiple_256:
  fixes d :: int
  shows "256 dvd (d div 256) * 256"
    and "(d div 256) * 256 \<le> d"
    and "256 dvd k \<Longrightarrow> k \<le> d \<Longrightarrow> k \<le> (d div 256) * 256"
proof -
  show "256 dvd (d div 256) * 256" by simp
  have "d = (d div 256) * 256 + d mod 256" by simp
  moreover have "0 \<le> d mod 256" by simp
  ultimately show "(d div 256) * 256 \<le> d" by linarith
  assume "256 dvd k" and le: "k \<le> d"
  then obtain j where k: "k = 256 * j" by (auto simp: dvd_def)
  from le have "k div 256 \<le> d div 256" by (rule zdiv_mono1) simp
  with k have "j \<le> d div 256" by simp
  with k show "k \<le> (d div 256) * 256" by simp
qed

text \<open>
  C9. The fractions are fractions of the device memory, and the products are finite
  floats. Whenever \<open>create_cluster\<close> returns the client of a cluster, \<open>n_workers\<close> and
  \<open>memory_limit\<close> have reached that cluster unchanged, and it is the one cluster the
  call created. When the product \<open>device_limit_frac * s\<close> is not negative, the device
  memory limit of the cluster is the floor of that product. When the product
  \<open>device_pool_frac * s\<close> is not negative, the RMM pool size is the largest multiple of
  256 that is at most the floor of that product. Here \<open>s\<close> is the device memory size, and
  each product is the float Python computes (\<open>float_mul\<close>).
\<close>

theorem create_cluster_sizing:
  "fst (create_cluster ev n f p m) = Inr (Client c) \<longrightarrow>
     snd (create_cluster ev n f p m) = [ClusterCreated c]
   \<and> cl_n_workers c = n
   \<and> cl_memory_limit c = m
   \<and> (0 \<le> float_mul ev f (device_mem_size ev) \<longrightarrow>
        cl_device_memory_limit c = \<lfloor>float_mul ev f (device_mem_size ev)\<rfloor>)
   \<and> (0 \<le> float_mul ev p (device_mem_size ev) \<longrightarrow>
        256 dvd cl_rmm_pool_size c
      \<and> cl_rmm_pool_size c \<le> \<lfloor>float_mul ev p (device_mem_size ev)\<rfloor>
      \<and> (\<forall>k. 256 dvd k \<and> k \<le> \<lfloor>float_mul ev p (device_mem_size ev)\<rfloor> \<longrightarrow>
             k \<le> cl_rmm_pool_size c))"
  using largest_multiple_256[of "\<lfloor>float_mul ev p (device_mem_size ev)\<rfloor>"]
  by (auto simp: create_cluster_eq py_int_nonneg)

text \<open>
  The defaults of the command line on the 16 GiB device: the limit is
  \<open>floor(0.6 * 17179869184) = 10307921510\<close> and the pool is \<open>15461882112\<close>, the
  largest multiple of 256 that is at most \<open>floor(0.9 * 17179869184) = 15461882265\<close>;
  \<open>15461881856\<close> is the multiple of 256 before it.
\<close>

theorem create_cluster_sizing_witness:
  "fst (create_cluster bucket_env (Some 2) (6 / 10) (9 / 10) 100000000000) =
     Inr (Client (LocalCUDACluster (Some 2) 10307921510 15461882112 100000000000))
   \<and> snd (create_cluster bucket_env (Some 2) (6 / 10) (9 / 10) 100000000000) =
     [ClusterCreated (LocalCUDACluster (Some 2) 10307921510 15461882112 100000000000)]
   \<and> 0 \<le> float_mul bucket_env (6 / 10) (device_mem_size bucket_env)
   \<and> \<lfloor>float_mul bucket_env (6 / 10) (device_mem_size bucket_env)\<rfloor> = 10307921510
   \<and> 0 \<le> float_mul bucket_env (9 / 10) (device_mem_size bucket_env)
   \<and> \<lfloor>float_mul bucket_env (9 / 10) (device_mem_size bucket_env)\<rfloor> = 15461882265
   \<and> (256::int) dvd 15461882112
   \<and> (15461882112::int) \<le> 15461882265
   \<and> (256::int) dvd 15461881856
   \<and> 15461881856 \<le> \<lfloor>float_mul bucket_env (9 / 10) (device_mem_size bucket_env)\<rfloor>
   \<and> (15461881856::int) \<le> 15461882112"
proof -
  let ?c = "LocalCUDACluster (Some 2) 10307921510 15461882112 100000000000"
  let ?pool = "\<lfloor>float_mul bucket_env (9 / 10) (device_mem_size bucket_env)\<rfloor>"
  have run: "fst (create_cluster bucket_env (Some 2) (6 / 10) (9 / 10) 100000000000) =
      Inr (Client ?c)"
    by code_simp
  have lim: "0 \<le> float_mul bucket_env (6 / 10) (device_mem_size bucket_env)"
    by code_simp
  have pool: "0 \<le> float_mul bucket_env (9 / 10) (device_mem_size bucket_env)"
    by code_simp
  have k: "(256::int) dvd 15461881856" by simp
  have k_le: "15461881856 \<le> ?pool" by code_simp
  from create_cluster_sizing[of bucket_env "Some 2" "6 / 10" "9 / 10" 100000000000 ?c] run
  have created:
    "snd (create_cluster bucket_env (Some 2) (6 / 10) (9 / 10) 100000000000) =
       [ClusterCreated ?c]"
    and props:
    "cl_device_memory_limit ?c = \<lfloor>float_mul bucket_env (6 / 10) (device_mem_size bucket_env)\<rfloor>"
    "256 dvd cl_rmm_pool_size ?c"
    "cl_rmm_pool_size ?c \<le> ?pool"
    and largest: "\<forall>k. 256 dvd k \<and> k \<le> ?pool \<longrightarrow> k \<le> cl_rmm_pool_size ?c"
    using lim pool by blast+
  from largest k k_le have below: "15461881856 \<le> cl_rmm_pool_size ?c" by blast
  have fl: "?pool = 15461882265" by code_simp
  from run created lim pool props fl k k_le below show ?thesis by simp
qed

subsection \<open>The defaults of the command line\<close>

text \<open>
  C7. When its flag is omitted, \<open>frac_size\<close> is \<open>0.10\<close>, \<open>memory_limit\<close> is
  \<open>100000000000\<close>, \<open>device_limit_frac\<close> is \<open>0.60\<close> and \<open>device_pool_frac\<close> is \<open>0.90\<close>;
  a value given with the flag is the attribute's value, unchanged.
\<close>

theorem parse_args_defaults:
  "(given_frac_size cl = None \<longrightarrow> args_frac_size (parse_args cl) = 0.10)
   \<and> (given_memory_limit cl = None \<longrightarrow> args_memory_limit (parse_args cl) = 100000000000)
   \<and> (given_device_limit_frac cl = None \<longrightarrow> args_device_limit_frac (parse_args cl) = 0.60)
   \<and> (given_device_pool_frac cl = None \<longrightarrow> args_device_pool_frac (parse_args cl) = 0.90)
   \<and> (given_frac_size cl = Some v1 \<longrightarrow> args_frac_size (parse_args cl) = v1)
   \<and> (given_memory_limit cl = Some v2 \<longrightarrow> args_memory_limit (parse_args cl) = v2)
   \<and> (given_device_limit_frac cl = Some v3 \<longrightarrow> args_device_limit_frac (parse_args cl) = v3)
   \<and> (given_device_pool_frac cl = Some v4 \<longrightarrow> args_device_pool_frac (parse_args cl) = v4)"
  by (simp add: parse_args_def add_argument_def)

text \<open>The command line without flags, and one that gives all four.\<close>

theorem parse_args_defaults_witness:
  "args_frac_size (parse_args no_flags) = 0.10
   \<and> args_memory_limit (parse_args no_flags) = 100000000000
   \<and> args_device_limit_frac (parse_args no_flags) = 0.60
   \<and> args_device_pool_frac (parse_args no_flags) = 0.90
   \<and> args_frac_size (parse_args (no_flags\<lparr>given_frac_size := Some 0.25,
        given_memory_limit := Some 5000, given_device_limit_frac := Some 0.5,
        given_device_pool_frac := Some 0.75\<rparr>)) = 0.25
   \<and> args_memory_limit (parse_args (no_flags\<lparr>given_frac_size := Some 0.25,
        given_memory_limit := Some 5000, given_device_limit_frac := Some 0.5,
        given_device_pool_frac := Some 0.75\<rparr>)) = 5000
   \<and> args_device_limit_frac (parse_args (no_flags\<lparr>given_frac_size := Some 0.25,
        given_memory_limit := Some 5000, given_device_limit_frac := Some 0.5,
        given_device_pool_frac := Some 0.75\<rparr>)) = 0.5
   \<and> args_device_pool_frac (parse_args (no_flags\<lparr>given_frac_size := Some 0.25,
        given_memory_limit := Some 5000, given_device_limit_frac := Some 0.5,
        given_device_pool_frac := Some 0.75\<rparr>)) = 0.75"
proof -
  let ?cl = "no_flags\<lparr>given_frac_size := Some 0.25,
        given_memory_limit := Some 5000, given_device_limit_frac := Some 0.5,
        given_device_pool_frac := Some 0.75\<rparr>"
  have none: "given_frac_size no_flags = None" "given_memory_limit no_flags = None"
    "given_device_limit_frac no_flags = None" "given_device_pool_frac no_flags = None"
    by (simp_all add: no_flags_def)
  have some: "given_frac_size ?cl = Some 0.25" "given_memory_limit ?cl = Some 5000"
    "given_device_limit_frac ?cl = Some 0.5" "given_device_pool_frac ?cl = Some 0.75"
    by simp_all
  from parse_args_defaults[of no_flags] none
  have d: "args_frac_size (parse_args no_flags) = 0.10"
    "args_memory_limit (parse_args no_flags) = 100000000000"
    "args_device_limit_frac (parse_args no_flags) = 0.60"
    "args_device_pool_frac (parse_args no_flags) = 0.90"
    by blast+
  from parse_args_defaults[of ?cl "0.25" 5000 "0.5" "0.75"] some
  have g: "args_frac_size (parse_args ?cl) = 0.25"
    "args_memory_limit (parse_args ?cl) = 5000"
    "args_device_limit_frac (parse_args ?cl) = 0.5"
    "args_device_pool_frac (parse_args ?cl) = 0.75"
    by blast+
  from d g show ?thesis by blast
qed

subsection \<open>The Parquet dataset\<close>

lemma create_parquet_dataset_empty:
  "gcs_glob ev (os_path_join p ''*.parquet'') = Inr [] \<Longrightarrow>
   create_parquet_dataset ev c (Some p) f =
     (Inl (FileNotFoundError ''Parquet file(s) not found''),
      [FsGlob (os_path_join p ''*.parquet'')])"
  by (simp add: create_parquet_dataset_def fs_glob_def io_simps)

lemma create_parquet_dataset_files:
  "gcs_glob ev (os_path_join p ''*.parquet'') = Inr fl \<Longrightarrow> fl \<noteq> [] \<Longrightarrow>
   create_parquet_dataset ev c (Some p) f =
     (Inr (ParquetDataset (map (os_path_join ''gs://'') fl) f c),
      [FsGlob (os_path_join p ''*.parquet'')])"
  by (simp add: create_parquet_dataset_def fs_glob_def io_simps)

lemma main_analyse_not_found:
  "gcs_glob ev (os_path_join p ''*.parquet'') = Inr [] \<Longrightarrow>
   args_parquet_data_path a = Some p \<Longrightarrow>
   fst (main_analyse ev a) = Inl (FileNotFoundError ''Parquet file(s) not found'')"
  by (simp add: main_analyse_def create_cluster_eq create_parquet_dataset_empty io_simps)

lemma main_transform_not_found:
  "gcs_glob ev (os_path_join p ''*.parquet'') = Inr [] \<Longrightarrow>
   args_parquet_data_path a = Some p \<Longrightarrow>
   fst (main_transform ev a) = Inl (FileNotFoundError ''Parquet file(s) not found'')"
  by (simp add: main_transform_def create_cluster_eq create_parquet_dataset_empty io_simps)

lemma main_not_found:
  assumes "gcs_glob ev (os_path_join p ''*.parquet'') = Inr []"
    and "given_parquet_data_path cl = Some p"
    and "given_task cl = Some ''analyse'' \<or> given_task cl = Some ''transform''"
  shows "fst (main ev cl) = Inl (FileNotFoundError ''Parquet file(s) not found'')"
proof -
  have a: "fst (main_analyse ev (parse_args cl)) =
      Inl (FileNotFoundError ''Parquet file(s) not found'')"
    using assms(1,2) by (simp add: main_analyse_not_found parse_args_passes)
  have t: "fst (main_transform ev (parse_args cl)) =
      Inl (FileNotFoundError ''Parquet file(s) not found'')"
    using assms(1,2) by (simp add: main_transform_not_found parse_args_passes)
  from assms(3) show ?thesis
  proof
    assume "given_task cl = Some ''analyse''"
    then show ?thesis using a
      by (simp add: main_def Let_def parse_args_passes io_simps fst_bind_io_Inl)
  next
    assume "given_task cl = Some ''transform''"
    then show ?thesis using t
      by (simp add: main_def Let_def parse_args_passes io_simps fst_bind_io_Inl)
  qed
qed

text \<open>
  C5. When the glob of \<open><data_path>/*.parquet\<close> returns the empty list,
  \<open>create_parquet_dataset\<close> raises \<open>FileNotFoundError('Parquet file(s) not found')\<close>, and
  nothing catches it: \<open>main_analyse\<close>, \<open>main_transform\<close> and the program as a whole end
  with that exception. When the glob returns a list that is not empty, the function
  raises nothing and returns the dataset of the listed files.
\<close>

theorem parquet_not_found_is_fatal:
  "(gcs_glob ev (os_path_join p ''*.parquet'') = Inr [] \<longrightarrow>
      fst (create_parquet_dataset ev c (Some p) f) =
        Inl (FileNotFoundError ''Parquet file(s) not found'')
    \<and> (args_parquet_data_path a = Some p \<longrightarrow>
         fst (main_analyse ev a) = Inl (FileNotFoundError ''Parquet file(s) not found'')
       \<and> fst (main_transform ev a) = Inl (FileNotFoundError ''Parquet file(s) not found''))
    \<and> (given_parquet_data_path cl = Some p
         \<and> (given_task cl = Some ''analyse'' \<or> given_task cl = Some ''transform'') \<longrightarrow>
         fst (main ev cl) = Inl (FileNotFoundError ''Parquet file(s) not found'')))
   \<and> (gcs_glob ev (os_path_join p ''*.parquet'') = Inr fl \<and> fl \<noteq> [] \<longrightarrow>
        fst (create_parquet_dataset ev c (Some p) f) =
          Inr (ParquetDataset (map (os_path_join ''gs://'') fl) f c))"
  by (simp add: create_parquet_dataset_empty create_parquet_dataset_files
      main_analyse_not_found main_transform_not_found main_not_found)

text \<open>
  In the bucket, \<open>gs://bucket/empty\<close> holds no Parquet file and \<open>gs://bucket/parquet\<close>
  holds one.
\<close>

theorem parquet_not_found_is_fatal_witness:
  "gcs_glob bucket_env (os_path_join ''gs://bucket/empty'' ''*.parquet'') = Inr []
   \<and> fst (create_parquet_dataset bucket_env (Client (LocalCUDACluster None 0 0 0))
            (Some ''gs://bucket/empty'') (1 / 10)) =
       Inl (FileNotFoundError ''Parquet file(s) not found'')
   \<and> fst (main bucket_env
            (no_flags\<lparr>given_task := Some ''analyse'',
                       given_parquet_data_path := Some ''gs://bucket/empty''\<rparr>)) =
       Inl (FileNotFoundError ''Parquet file(s) not found'')
   \<and> fst (main_transform bucket_env
            (parse_args (no_flags\<lparr>given_task := Some ''transform'',
                       given_parquet_data_path := Some ''gs://bucket/empty''\<rparr>))) =
       Inl (FileNotFoundError ''Parquet file(s) not found'')
   \<and> gcs_glob bucket_env (os_path_join ''gs://bucket/parquet'' ''*.parquet'') =
       Inr [''bucket/parquet/part_0.parquet'']
   \<and> fst (create_parquet_dataset bucket_env (Client (LocalCUDACluster None 0 0 0))
            (Some ''gs://bucket/parquet'') (1 / 10)) =
       Inr (ParquetDataset [''gs://bucket/parquet/part_0.parquet''] (1 / 10)
              (Client (LocalCUDACluster None 0 0 0)))"
proof -
  let ?c = "Client (LocalCUDACluster None 0 0 0)"
  let ?cl = "no_flags\<lparr>given_task := Some ''analyse'',
                       given_parquet_data_path := Some ''gs://bucket/empty''\<rparr>"
  let ?a = "parse_args (no_flags\<lparr>given_task := Some ''transform'',
                       given_parquet_data_path := Some ''gs://bucket/empty''\<rparr>)"
  have empty: "gcs_glob bucket_env (os_path_join ''gs://bucket/empty'' ''*.parquet'') = Inr []"
    by code_simp
  have files: "gcs_glob bucket_env (os_path_join ''gs://bucket/parquet'' ''*.parquet'') =
      Inr [''bucket/parquet/part_0.parquet'']"
    by code_simp
  have cl: "given_parquet_data_path ?cl = Some ''gs://bucket/empty''"
    "given_task ?cl = Some ''analyse''"
    by simp_all
  have a: "args_parquet_data_path ?a = Some ''gs://bucket/empty''"
    by (simp add: parse_args_def)
  have joined: "map (os_path_join ''gs://'') [''bucket/parquet/part_0.parquet''] =
      [''gs://bucket/parquet/part_0.parquet'']"
    by (simp add: os_path_join_def)
  from parquet_not_found_is_fatal[where ev = bucket_env and p = "''gs://bucket/empty''"
      and c = ?c and f = "1 / 10" and a = ?a and cl = ?cl] empty cl a
  have "fst (create_parquet_dataset bucket_env ?c (Some ''gs://bucket/empty'') (1 / 10)) =
       Inl (FileNotFoundError ''Parquet file(s) not found'')"
    and "fst (main bucket_env ?cl) = Inl (FileNotFoundError ''Parquet file(s) not found'')"
    and "fst (main_transform bucket_env ?a) =
       Inl (FileNotFoundError ''Parquet file(s) not found'')"
    by blast+
  moreover
  from parquet_not_found_is_fatal[where ev = bucket_env and p = "''gs://bucket/parquet''"
      and c = ?c and f = "1 / 10" and fl = "[''bucket/parquet/part_0.parquet'']"] files
  have "fst (create_parquet_dataset bucket_env ?c (Some ''gs://bucket/parquet'') (1 / 10)) =
       Inr (ParquetDataset [''gs://bucket/parquet/part_0.parquet''] (1 / 10) ?c)"
    unfolding joined by blast
  ultimately show ?thesis using empty files by blast
qed

subsection \<open>The workflow\<close>

lemma criteo_workflow_graph:
  "create_criteo_nvt_workflow c =
     Workflow
       (Plus
          (Plus
             (Rshift
                (ColumnNames
                   [''C1'', ''C2'', ''C3'', ''C4'', ''C5'', ''C6'', ''C7'', ''C8'', ''C9'',
                    ''C10'', ''C11'', ''C12'', ''C13'', ''C14'', ''C15'', ''C16'', ''C17'',
                    ''C18'', ''C19'', ''C20'', ''C21'', ''C22'', ''C23'', ''C24'', ''C25'',
                    ''C26''])
                (Categorify 10000000))
             (Rshift
                (Rshift
                   (Rshift
                      (ColumnNames
                         [''I1'', ''I2'', ''I3'', ''I4'', ''I5'', ''I6'', ''I7'', ''I8'',
                          ''I9'', ''I10'', ''I11'', ''I12'', ''I13''])
                      FillMissing)
                   (Clip 0))
                Normalize))
          (ColumnNames [''label'']))
       c"
  by code_simp

lemma main_analyse_trace:
  assumes "args_parquet_data_path a = Some p"
    and "gcs_glob ev (os_path_join p ''*.parquet'') = Inr fl" and "fl \<noteq> []"
    and "fst (create_cluster ev (args_n_workers a) (args_device_limit_frac a)
            (args_device_pool_frac a) (args_memory_limit a)) = Inr client"
  shows "main_analyse ev a =
          (Inr (),
           [Info ''Creating cluster'' [], ClusterCreated (client_cluster client),
            Info ''Creating Parquet dataset'' [], FsGlob (os_path_join p ''*.parquet''),
            Info ''Creating Workflow'' [], Info ''Analyzing dataset'' [],
            WorkflowFit (create_criteo_nvt_workflow client)
              (ParquetDataset (map (os_path_join ''gs://'') fl) (args_frac_size a) client),
            Info ''Saving Workflow'' [],
            WorkflowSave
              (Fitted (create_criteo_nvt_workflow client)
                 (ParquetDataset (map (os_path_join ''gs://'') fl) (args_frac_size a) client))
              (args_output_path a)])"
  using assms(1,2,3) create_cluster_client[OF assms(4)]
  by (simp add: main_analyse_def create_parquet_dataset_files io_simps
      analyze_dataset_def wf_fit_def save_workflow_def)

lemma main_transform_trace:
  assumes "args_parquet_data_path a = Some p"
    and "gcs_glob ev (os_path_join p ''*.parquet'') = Inr fl" and "fl \<noteq> []"
    and "fst (create_cluster ev (args_n_workers a) (args_device_limit_frac a)
            (args_device_pool_frac a) (args_memory_limit a)) = Inr client"
  shows "main_transform ev a =
    (Inr (),
     [Info ''Creating cluster'' [], ClusterCreated (client_cluster client),
      Info ''Creating Parquet dataset'' [], FsGlob (os_path_join p ''*.parquet''),
      Info ''Loading Workflow'' [], WorkflowLoad (args_workflow_path a) client,
      Info ''Transforming Dataset'' [],
      WorkflowTransform (LoadedWorkflow (args_workflow_path a) client)
        (ParquetDataset (map (os_path_join ''gs://'') fl) (args_frac_size a) client),
      Info ''Saving transformed dataset'' [],
      Printed ''Shuffle method not available. Using default.'',
      ToParquet
        (ParquetDataset (map (os_path_join ''gs://'') fl) (args_frac_size a) client)
        (args_output_path a) None None])"
  using assms(1,2,3) create_cluster_client[OF assms(4)]
  by (simp add: main_transform_def create_parquet_dataset_files io_simps
      transform_dataset_def wf_transform_def load_workflow_def save_dataset_def
      getattr_Shuffle_def to_parquet_def)

text \<open>
  C8. \<open>create_criteo_nvt_workflow\<close> builds the workflow whose column groups are: the 26
  columns \<open>C1\<close> .. \<open>C26\<close> through \<open>Categorify(max_size=10000000)\<close>; the 13 columns \<open>I1\<close> ..
  \<open>I13\<close> through \<open>FillMissing\<close>, then \<open>Clip(min_value=0)\<close>, then \<open>Normalize\<close>; and the
  column \<open>label\<close> as it is. When the cluster is up and the Parquet files are found, the
  analyse task creates this workflow for its own client, fits it on the dataset and
  saves the fitted workflow to \<open>--output_path\<close>; the transform task starts by loading a
  workflow from \<open>--workflow_path\<close> and applies the loaded workflow to the dataset.
\<close>

theorem criteo_workflow_built_saved_loaded:
  "create_criteo_nvt_workflow c =
     Workflow
       (Plus
          (Plus
             (Rshift
                (ColumnNames
                   [''C1'', ''C2'', ''C3'', ''C4'', ''C5'', ''C6'', ''C7'', ''C8'', ''C9'',
                    ''C10'', ''C11'', ''C12'', ''C13'', ''C14'', ''C15'', ''C16'', ''C17'',
                    ''C18'', ''C19'', ''C20'', ''C21'', ''C22'', ''C23'', ''C24'', ''C25'',
                    ''C26''])
                (Categorify 10000000))
             (Rshift
                (Rshift
                   (Rshift
                      (ColumnNames
                         [''I1'', ''I2'', ''I3'', ''I4'', ''I5'', ''I6'', ''I7'', ''I8'',
                          ''I9'', ''I10'', ''I11'', ''I12'', ''I13''])
                      FillMissing)
                   (Clip 0))
                Normalize))
          (ColumnNames [''label'']))
       c
   \<and> (args_parquet_data_path a = Some p
        \<and> gcs_glob ev (os_path_join p ''*.parquet'') = Inr fl \<and> fl \<noteq> []
        \<and> fst (create_cluster ev (args_n_workers a) (args_device_limit_frac a)
                 (args_device_pool_frac a) (args_memory_limit a)) = Inr client \<longrightarrow>
        main_analyse ev a =
          (Inr (),
           [Info ''Creating cluster'' [], ClusterCreated (client_cluster client),
            Info ''Creating Parquet dataset'' [], FsGlob (os_path_join p ''*.parquet''),
            Info ''Creating Workflow'' [], Info ''Analyzing dataset'' [],
            WorkflowFit (create_criteo_nvt_workflow client)
              (ParquetDataset (map (os_path_join ''gs://'') fl) (args_frac_size a) client),
            Info ''Saving Workflow'' [],
            WorkflowSave
              (Fitted (create_criteo_nvt_workflow client)
                 (ParquetDataset (map (os_path_join ''gs://'') fl) (args_frac_size a) client))
              (args_output_path a)])
      \<and> take 8 (snd (main_transform ev a)) =
           [Info ''Creating cluster'' [], ClusterCreated (client_cluster client),
            Info ''Creating Parquet dataset'' [], FsGlob (os_path_join p ''*.parquet''),
            Info ''Loading Workflow'' [], WorkflowLoad (args_workflow_path a) client,
            Info ''Transforming Dataset'' [],
            WorkflowTransform (LoadedWorkflow (args_workflow_path a) client)
              (ParquetDataset (map (os_path_join ''gs://'') fl) (args_frac_size a) client)])"
  (is "?graph \<and> (?ready \<longrightarrow> ?analyse \<and> ?transform)")
proof (intro conjI impI)
  show ?graph by (rule criteo_workflow_graph)
next
  assume ready: ?ready
  then show ?analyse by (simp add: main_analyse_trace)
  from ready show ?transform by (simp add: main_transform_trace)
qed

text \<open>
  The two tasks on the bucket, with \<open>gs://bucket/workflow\<close> as the place of the
  workflow: the last event of the analyse task is the save of the fitted workflow, and
  the sixth event of the transform task is the load from that path.
\<close>

theorem criteo_workflow_built_saved_loaded_witness:
  "gcs_glob bucket_env (os_path_join ''gs://bucket/parquet'' ''*.parquet'') =
     Inr [''bucket/parquet/part_0.parquet'']
   \<and> last (snd (main_analyse bucket_env
        (parse_args (no_flags\<lparr>given_parquet_data_path := Some ''gs://bucket/parquet'',
           given_output_path := Some ''gs://bucket/workflow'',
           given_workflow_path := Some ''gs://bucket/workflow''\<rparr>)))) =
     WorkflowSave
       (Fitted
          (create_criteo_nvt_workflow
             (Client (LocalCUDACluster None 10307921510 15461882112 100000000000)))
          (ParquetDataset [''gs://bucket/parquet/part_0.parquet''] (1 / 10)
             (Client (LocalCUDACluster None 10307921510 15461882112 100000000000))))
       (Some ''gs://bucket/workflow'')
   \<and> snd (main_transform bucket_env
        (parse_args (no_flags\<lparr>given_parquet_data_path := Some ''gs://bucket/parquet'',
           given_output_path := Some ''gs://bucket/workflow'',
           given_workflow_path := Some ''gs://bucket/workflow''\<rparr>))) ! 5 =
     WorkflowLoad (Some ''gs://bucket/workflow'')
       (Client (LocalCUDACluster None 10307921510 15461882112 100000000000))"
proof -
  let ?a = "parse_args (no_flags\<lparr>given_parquet_data_path := Some ''gs://bucket/parquet'',
           given_output_path := Some ''gs://bucket/workflow'',
           given_workflow_path := Some ''gs://bucket/workflow''\<rparr>)"
  let ?client = "Client (LocalCUDACluster None 10307921510 15461882112 100000000000)"
  have out: "args_output_path ?a = Some ''gs://bucket/workflow''"
    and wfp: "args_workflow_path ?a = Some ''gs://bucket/workflow''"
    and frac: "args_frac_size ?a = 1 / 10"
    by (simp_all add: parse_args_def no_flags_def add_argument_def)
  have path: "args_parquet_data_path ?a = Some ''gs://bucket/parquet''"
    by (simp add: parse_args_def)
  have files: "gcs_glob bucket_env (os_path_join ''gs://bucket/parquet'' ''*.parquet'') =
      Inr [''bucket/parquet/part_0.parquet'']"
    by code_simp
  have cluster:
    "fst (create_cluster bucket_env (args_n_workers ?a) (args_device_limit_frac ?a)
            (args_device_pool_frac ?a) (args_memory_limit ?a)) = Inr ?client"
    by code_simp
  have joined: "map (os_path_join ''gs://'') [''bucket/parquet/part_0.parquet''] =
      [''gs://bucket/parquet/part_0.parquet'']"
    by (simp add: os_path_join_def)
  from criteo_workflow_built_saved_loaded[where a = ?a and p = "''gs://bucket/parquet''"
      and ev = bucket_env and fl = "[''bucket/parquet/part_0.parquet'']"
      and client = ?client]
    path files cluster
  have an: "main_analyse bucket_env ?a =
          (Inr (),
           [Info ''Creating cluster'' [], ClusterCreated (client_cluster ?client),
            Info ''Creating Parquet dataset'' [],
            FsGlob (os_path_join ''gs://bucket/parquet'' ''*.parquet''),
            Info ''Creating Workflow'' [], Info ''Analyzing dataset'' [],
            WorkflowFit (create_criteo_nvt_workflow ?client)
              (ParquetDataset
                 (map (os_path_join ''gs://'') [''bucket/parquet/part_0.parquet''])
                 (args_frac_size ?a) ?client),
            Info ''Saving Workflow'' [],
            WorkflowSave
              (Fitted (create_criteo_nvt_workflow ?client)
                 (ParquetDataset
                    (map (os_path_join ''gs://'') [''bucket/parquet/part_0.parquet''])
                    (args_frac_size ?a) ?client))
              (args_output_path ?a)])"
    and tr: "take 8 (snd (main_transform bucket_env ?a)) =
           [Info ''Creating cluster'' [], ClusterCreated (client_cluster ?client),
            Info ''Creating Parquet dataset'' [],
            FsGlob (os_path_join ''gs://bucket/parquet'' ''*.parquet''),
            Info ''Loading Workflow'' [], WorkflowLoad (args_workflow_path ?a) ?client,
            Info ''Transforming Dataset'' [],
            WorkflowTransform (LoadedWorkflow (args_workflow_path ?a) ?client)
              (ParquetDataset
                 (map (os_path_join ''gs://'') [''bucket/parquet/part_0.parquet''])
                 (args_frac_size ?a) ?client)]"
    by blast+
  have 1: "last (snd (main_analyse bucket_env ?a)) =
     WorkflowSave
       (Fitted (create_criteo_nvt_workflow ?client)
          (ParquetDataset [''gs://bucket/parquet/part_0.parquet''] (1 / 10) ?client))
       (Some ''gs://bucket/workflow'')"
    unfolding an joined out frac by simp
  have "snd (main_transform bucket_env ?a) ! 5 =
      take 8 (snd (main_transform bucket_env ?a)) ! 5"
    by simp
  also have "\<dots> = WorkflowLoad (Some ''gs://bucket/workflow'') ?client"
    unfolding tr wfp by simp
  finally show ?thesis using files 1 by blast
qed

subsection \<open>The dispatch\<close>

text \<open>
  C10. When \<open>--task\<close> is omitted or is any string other than \<open>convert\<close>, \<open>analyse\<close> and
  \<open>transform\<close>, the program calls no task function: its whole trace is the log line
  \<open>Timing task\<close> followed by the log line with the elapsed time, so no cluster is
  created, nothing is read and nothing is written, and it ends without an exception.
\<close>

theorem unknown_task_runs_nothing:
  "given_task cl \<noteq> Some ''convert'' \<Longrightarrow> given_task cl \<noteq> Some ''analyse'' \<Longrightarrow>
   given_task cl \<noteq> Some ''transform'' \<Longrightarrow>
   main ev cl =
     (Inr (), [Info ''Timing task'' [],
               Info ''Task completed. Elapsed time: %s''
                 [float_sub ev (time_end ev) (time_start ev)]])"
  by (simp add: main_def Let_def parse_args_passes io_simps)

text \<open>No \<open>--task\<close> at all, and a task name in the wrong case.\<close>

theorem unknown_task_runs_nothing_witness:
  "main bucket_env no_flags =
     (Inr (), [Info ''Timing task'' [], Info ''Task completed. Elapsed time: %s'' [2]])
   \<and> main bucket_env (no_flags\<lparr>given_task := Some ''Convert''\<rparr>) =
     (Inr (), [Info ''Timing task'' [], Info ''Task completed. Elapsed time: %s'' [2]])"
proof -
  have t: "float_sub bucket_env (time_end bucket_env) (time_start bucket_env) = 2"
    by (simp add: bucket_env_def)
  have "given_task no_flags = None" by (simp add: no_flags_def)
  then have 1: "main bucket_env no_flags =
     (Inr (), [Info ''Timing task'' [], Info ''Task completed. Elapsed time: %s'' [2]])"
    using unknown_task_runs_nothing[of no_flags bucket_env] t by simp
  have 2: "main bucket_env (no_flags\<lparr>given_task := Some ''Convert''\<rparr>) =
     (Inr (), [Info ''Timing task'' [], Info ''Task completed. Elapsed time: %s'' [2]])"
    using unknown_task_runs_nothing[of "no_flags\<lparr>given_task := Some ''Convert''\<rparr>" bucket_env] t
    by simp
  from 1 2 show ?thesis by blast
qed

subsection \<open>The transform task\<close>

lemma dataset_not_its_transform: "d \<noteq> Transformed w d"
proof
  assume "d = Transformed w d"
  then have "size d = size (Transformed w d)" by (rule arg_cong)
  then show False by simp
qed

text \<open>
  C1 says that \<open>transform_dataset\<close> returns the dataset with the workflow applied and
  that the transform task writes that dataset. The code does neither: for every dataset
  and workflow \<open>transform_dataset\<close> calls \<open>workflow.transform\<close>, drops what the call
  returns and returns its own argument, which is not the transformed dataset. Run on
  the bucket, the transform task hands to \<open>to_parquet\<close> the dataset it read.
\<close>

theorem transform_task_writes_untransformed_dataset:
  "transform_dataset d w = (Inr d, [WorkflowTransform w d])
   \<and> d \<noteq> Transformed w d
   \<and> main bucket_env
       (no_flags\<lparr>given_task := Some ''transform'',
                  given_parquet_data_path := Some ''gs://bucket/parquet'',
                  given_workflow_path := Some ''gs://bucket/workflow'',
                  given_output_path := Some ''gs://bucket/out''\<rparr>) =
     (Inr (),
      [Info ''Timing task'' [], Info ''Creating cluster'' [],
       ClusterCreated (LocalCUDACluster None 10307921510 15461882112 100000000000),
       Info ''Creating Parquet dataset'' [], FsGlob ''gs://bucket/parquet/*.parquet'',
       Info ''Loading Workflow'' [],
       WorkflowLoad (Some ''gs://bucket/workflow'')
         (Client (LocalCUDACluster None 10307921510 15461882112 100000000000)),
       Info ''Transforming Dataset'' [],
       WorkflowTransform
         (LoadedWorkflow (Some ''gs://bucket/workflow'')
            (Client (LocalCUDACluster None 10307921510 15461882112 100000000000)))
         (ParquetDataset [''gs://bucket/parquet/part_0.parquet''] (1 / 10)
            (Client (LocalCUDACluster None 10307921510 15461882112 100000000000))),
       Info ''Saving transformed dataset'' [],
       Printed ''Shuffle method not available. Using default.'',
       ToParquet
         (ParquetDataset [''gs://bucket/parquet/part_0.parquet''] (1 / 10)
            (Client (LocalCUDACluster None 10307921510 15461882112 100000000000)))
         (Some ''gs://bucket/out'') None None,
       Info ''Task completed. Elapsed time: %s'' [2]])"
  (is "?returned \<and> ?differs \<and> ?run")
proof (intro conjI)
  show ?returned
    by (simp add: transform_dataset_def wf_transform_def io_simps)
  show ?differs by (rule dataset_not_its_transform)
  show ?run by code_simp
qed

subsection \<open>The CSV dataset\<close>

text \<open>
  What the first path of the list contributes: a single file is taken as it is; any
  other path is joined with the glob symbol, and every listed name that is a file is
  taken with the prefix \<open>gs://\<close>.
\<close>

lemma glob_loop_files:
  "\<forall>i \<in> set files. gcs_isfile ev i = Inr True \<or> gcs_isfile ev i = Inr False \<Longrightarrow>
   glob_loop ev files valid_paths =
     (Inr (),
      valid_paths @ map (\<lambda>i. ''gs://'' @ i) (filter (\<lambda>i. gcs_isfile ev i = Inr True) files),
      map FsIsFile files)"
proof (induction files arbitrary: valid_paths)
  case Nil
  then show ?case by simp
next
  case (Cons i files)
  from Cons.prems
  have rest: "\<forall>i \<in> set files. gcs_isfile ev i = Inr True \<or> gcs_isfile ev i = Inr False"
    by simp
  from Cons.prems consider "gcs_isfile ev i = Inr True" | "gcs_isfile ev i = Inr False"
    by auto
  then show ?case
  proof cases
    case 1
    then show ?thesis by (simp add: Cons.IH[OF rest])
  next
    case 2
    then show ?thesis by (simp add: Cons.IH[OF rest])
  qed
qed

lemma create_csv_dataset_first_file:
  "gcs_isfile ev path = Inr True \<Longrightarrow>
   create_csv_dataset ev (Some (path # rest)) sep recursive col_dtypes frac_size client =
     (Inr (Some (CsvDataset [path] (map fst col_dtypes) sep col_dtypes frac_size client)),
      [FsIsFile path])"
  by (simp add: create_csv_dataset_def try_body_def)

lemma create_csv_dataset_first_directory:
  assumes "gcs_isfile ev path = Inr False"
    and "gcs_glob ev (os_path_join path (if recursive then ''**'' else ''*'')) = Inr files"
    and "\<forall>i \<in> set files. gcs_isfile ev i = Inr True \<or> gcs_isfile ev i = Inr False"
  shows "create_csv_dataset ev (Some (path # rest)) sep recursive col_dtypes frac_size client =
     (Inr (Some (CsvDataset
        (map (\<lambda>i. ''gs://'' @ i) (filter (\<lambda>i. gcs_isfile ev i = Inr True) files))
        (map fst col_dtypes) sep col_dtypes frac_size client)),
      [FsIsFile path, FsGlob (os_path_join path (if recursive then ''**'' else ''*''))]
        @ map FsIsFile files)"
  using assms(1,2) glob_loop_files[OF assms(3), of "[]"]
  by (simp add: create_csv_dataset_def try_body_def Let_def)

text \<open>
  C2 says that after a path that raises a missing-file or access error the resolution
  goes on with the remaining paths. The code prints the diagnostic and then returns: for
  every list, the result is the result for its first path alone. On the bucket, with the
  list \<open>['gs://missing/csv', 'gs://bucket/csv/day_0.csv']\<close>, the glob of the first path
  raises \<open>FileNotFoundError\<close>, and the dataset returned has no file, although the second
  path is a file of the bucket.
\<close>

theorem create_csv_dataset_stops_after_first_path:
  "create_csv_dataset ev (Some (path # rest)) sep recursive col_dtypes frac_size client =
     create_csv_dataset ev (Some [path]) sep recursive col_dtypes frac_size client
   \<and> gcs_isfile bucket_env ''gs://bucket/csv/day_0.csv'' = Inr True
   \<and> create_csv_dataset bucket_env (Some [''gs://missing/csv'', ''gs://bucket/csv/day_0.csv''])
       sep False col_dtypes frac_size client =
     (Inr (Some (CsvDataset [] (map fst col_dtypes) sep col_dtypes frac_size client)),
      [FsIsFile ''gs://missing/csv'', FsGlob ''gs://missing/csv/*'', Printed ''missing'',
       Printed ''Incorrect path: {path}.''])"
  by (simp add: create_csv_dataset_def try_body_def bucket_env_def bucket_isfile_def
      bucket_glob_def os_path_join_def)

text \<open>
  C6 says that every path of the list is resolved, a single file as it is and a
  directory through the glob. The code resolves the first path only. On the bucket, with
  the list of the two CSV files, both single files, the dataset returned holds the first
  file; the second is never looked at.
\<close>

theorem create_csv_dataset_second_file_dropped:
  "gcs_isfile bucket_env ''gs://bucket/csv/day_0.csv'' = Inr True
   \<and> gcs_isfile bucket_env ''gs://bucket/csv/day_1.csv'' = Inr True
   \<and> create_csv_dataset bucket_env
       (Some [''gs://bucket/csv/day_0.csv'', ''gs://bucket/csv/day_1.csv''])
       sep False col_dtypes frac_size client =
     (Inr (Some (CsvDataset [''gs://bucket/csv/day_0.csv''] (map fst col_dtypes) sep col_dtypes
                   frac_size client)),
      [FsIsFile ''gs://bucket/csv/day_0.csv''])"
  by (simp add: create_csv_dataset_def try_body_def bucket_env_def bucket_isfile_def)

subsection \<open>The shuffle argument\<close>

text \<open>
  \<open>save_dataset\<close> resolves the argument as \<open>convert_csv_to_parquet\<close> does and writes
  without \<open>output_files\<close>. The string \<open>None\<close> gives no shuffle; the name of a member gives
  the member; a name that is no attribute of the class gives no shuffle, after the
  message; the name of another attribute of the class gives that attribute.
\<close>

lemma save_dataset_as_convert:
  "save_dataset ev dataset output_path shuffle =
     convert_csv_to_parquet ev output_path dataset None shuffle"
  by (simp add: save_dataset_def convert_csv_to_parquet_def)

lemma shuffle_resolution:
  "convert_csv_to_parquet ev output_path (Some d) output_files (Some ''None'') =
     (Inr (), [ToParquet d output_path None output_files])"
  "s \<in> set (shuffle_members ev) \<Longrightarrow> s \<noteq> ''None'' \<Longrightarrow>
   convert_csv_to_parquet ev output_path (Some d) output_files (Some s) =
     (Inr (), [ToParquet d output_path (Some (ShuffleMember s)) output_files])"
  "s \<notin> set (shuffle_members ev) \<Longrightarrow> s \<notin> set (shuffle_class_attrs ev) \<Longrightarrow> s \<noteq> ''None'' \<Longrightarrow>
   convert_csv_to_parquet ev output_path (Some d) output_files (Some s) =
     (Inr (), [Printed ''Shuffle method not available. Using default.'',
               ToParquet d output_path None output_files])"
  "s \<notin> set (shuffle_members ev) \<Longrightarrow> s \<in> set (shuffle_class_attrs ev) \<Longrightarrow> s \<noteq> ''None'' \<Longrightarrow>
   convert_csv_to_parquet ev output_path (Some d) output_files (Some s) =
     (Inr (), [ToParquet d output_path (Some (ShuffleClassAttr s)) output_files])"
  by (simp_all add: convert_csv_to_parquet_def getattr_Shuffle_def to_parquet_def io_simps)

text \<open>
  C3 says that every string that is not the name of a member of \<open>Shuffle\<close> leads to a
  write with no shuffle. The code asks \<open>getattr(Shuffle, shuffle)\<close>, which also succeeds
  for the attributes every class has. The string \<open>__name__\<close> names no member; both
  functions pass the value of that attribute to \<open>to_parquet\<close> as the shuffle, and do not
  print the message.
\<close>

theorem shuffle_class_attribute_passed_to_write:
  "''__name__'' \<notin> set (shuffle_members bucket_env)
   \<and> convert_csv_to_parquet bucket_env output_path (Some d) output_files (Some ''__name__'') =
       (Inr (), [ToParquet d output_path (Some (ShuffleClassAttr ''__name__'')) output_files])
   \<and> save_dataset bucket_env (Some d) output_path (Some ''__name__'') =
       (Inr (), [ToParquet d output_path (Some (ShuffleClassAttr ''__name__'')) None])"
  by (simp add: convert_csv_to_parquet_def save_dataset_def getattr_Shuffle_def to_parquet_def
      bucket_env_def io_simps)

end
